theory Spec2Isabelle
  imports Complex_Main "HOL-Library.Sublist"
begin

section \<open>Backend (Python): values, errors and the relay's forwarding duties\<close>

text \<open>
  The backend handles JSON documents as Python values. Only the shapes the modelled
  functions touch are distinguished: \<open>None\<close>, booleans, numbers, strings, lists and
  dictionaries (an association list in insertion order, looked up with \<open>map_of\<close>).
\<close>

datatype pyval =
    PNone
  | PBool bool
  | PInt int
  | PFloat real
  | PStr string
  | PList "pyval list"
  | PDict "(string \<times> pyval) list"

text \<open>
  The exceptions the modelled Python can raise. \<open>InvalidRouting\<close> is the routing error
  the specification names; no function of the source raises it.
\<close>

datatype error =
    JSONDecodeError
  | KeyError string
  | IndexError
  | TypeError
  | AttributeError
  | ConnectionFailed
  | InvalidRouting

text \<open>\<open>data[key]\<close> with a string key: only a dictionary accepts it; a missing key raises.\<close>

fun subscript :: "pyval \<Rightarrow> string \<Rightarrow> error + pyval" where
  "subscript (PDict kvs) k = (case map_of kvs k of None \<Rightarrow> Inl (KeyError k) | Some v \<Rightarrow> Inr v)"
| "subscript _ k = Inl TypeError"

text \<open>
  \<^verbatim>\<open>
  async def _forward_client_to_azure(self, client_ws, azure_ws):
      async for message in client_ws:
          data = json.loads(message)
          if data['type'] == 'input_audio_buffer.append':
              await azure_ws.send(message)
  \<close>
  The duty is run over the list of messages the source connection delivers. The parser
  \<open>json_loads\<close> is the library's (\<open>None\<close>: the text is not JSON). The result is the list
  of messages sent to the destination, in sending order, and the exception that ended the
  loop, if any: a message that does not parse, or has no \<open>type\<close>, raises out of the loop
  and nothing after it is read.
\<close>

fun forward_client_to_azure ::
  "(string \<Rightarrow> pyval option) \<Rightarrow> string list \<Rightarrow> string list \<times> error option" where
  "forward_client_to_azure json_loads [] = ([], None)"
| "forward_client_to_azure json_loads (message # rest) =
     (case json_loads message of
        None \<Rightarrow> ([], Some JSONDecodeError)
      | Some data \<Rightarrow>
          (case subscript data ''type'' of
             Inl e \<Rightarrow> ([], Some e)
           | Inr ty \<Rightarrow>
               (let (sent, ended) = forward_client_to_azure json_loads rest
                in if ty = PStr ''input_audio_buffer.append''
                   then (message # sent, ended)
                   else (sent, ended))))"

text \<open>
  \<^verbatim>\<open>
  async def _forward_azure_to_client(self, azure_ws, client_ws):
      async for message in azure_ws:
          data = json.loads(message)
          if data['type'] == 'response.audio.delta':
              await client_ws.send(message)
  \<close>
\<close>

fun forward_azure_to_client ::
  "(string \<Rightarrow> pyval option) \<Rightarrow> string list \<Rightarrow> string list \<times> error option" where
  "forward_azure_to_client json_loads [] = ([], None)"
| "forward_azure_to_client json_loads (message # rest) =
     (case json_loads message of
        None \<Rightarrow> ([], Some JSONDecodeError)
      | Some data \<Rightarrow>
          (case subscript data ''type'' of
             Inl e \<Rightarrow> ([], Some e)
           | Inr ty \<Rightarrow>
               (let (sent, ended) = forward_azure_to_client json_loads rest
                in if ty = PStr ''response.audio.delta''
                   then (message # sent, ended)
                   else (sent, ended))))"

text \<open>
  Modelled from the spec: the source has no message classifier. The kinds are those of the
  specification's protocol translator, and the recognised message types are the ones its
  external-interface section lists; every other message, and every message without a
  readable string \<open>type\<close>, is \<open>Unrecognized\<close>.
\<close>

datatype message_kind =
    AudioInputChunk
  | AudioOutputDelta
  | TranscriptionUser
  | TranscriptionAgent
  | SessionNegotiation
  | SessionLifecycle
  | Unrecognized

definition kind_of_type :: "string \<Rightarrow> message_kind" where
  "kind_of_type ty =
     (if ty = ''input_audio_buffer.append'' then AudioInputChunk
      else if ty = ''response.audio.delta'' then AudioOutputDelta
      else if ty = ''conversation.item.input_audio_transcription.completed'' then TranscriptionUser
      else if ty = ''response.audio_transcript.done'' then TranscriptionAgent
      else if ty = ''session.avatar.connect'' then SessionNegotiation
      else if ty = ''session.updated'' then SessionNegotiation
      else Unrecognized)"

definition Classify :: "(string \<Rightarrow> pyval option) \<Rightarrow> string \<Rightarrow> message_kind" where
  "Classify json_loads message =
     (case json_loads message of
        None \<Rightarrow> Unrecognized
      | Some data \<Rightarrow>
          (case subscript data ''type'' of
             Inr (PStr ty) \<Rightarrow> kind_of_type ty
           | _ \<Rightarrow> Unrecognized))"

section \<open>Backend (Python): the upstream address\<close>

text \<open>
  \<^verbatim>\<open>
  def _build_azure_websocket_url(self, agent_id: str) -> str:
      base_url = f"wss://{resource_name}.cognitiveservices.azure.com"
      path = "/voice-agent/realtime"
      params = {
          "api-version": "2025-05-01-preview",
          "x-ms-client-request-id": str(uuid.uuid4())
      }
      if agent_id.startswith("local-agent"):
          params["model"] = config["model_deployment_name"]
      else:
          params["agent-id"] = agent_id
      return f"{base_url}{path}?{urlencode(params)}"
  \<close>
  \<open>azure_websocket_params\<close> is the dictionary \<open>params\<close> as it stands at the \<open>return\<close>
  (in insertion order); the fresh \<open>uuid4\<close> is the argument \<open>request_id\<close>, and \<open>config\<close> is
  the configuration dictionary, whose subscript raises \<open>KeyError\<close> on a missing key.
  \<open>build_azure_websocket_url\<close> renders the address around it; \<open>resource_name\<close> and the
  library's \<open>urlencode\<close> are taken as arguments.
\<close>

definition azure_websocket_params ::
  "(string \<times> pyval) list \<Rightarrow> string \<Rightarrow> string \<Rightarrow> error + (string \<times> pyval) list" where
  "azure_websocket_params config request_id agent_id =
     (let params = [(''api-version'', PStr ''2025-05-01-preview''),
                    (''x-ms-client-request-id'', PStr request_id)]
      in if prefix ''local-agent'' agent_id
         then (case subscript (PDict config) ''model_deployment_name'' of
                 Inl e \<Rightarrow> Inl e
               | Inr model \<Rightarrow> Inr (params @ [(''model'', model)]))
         else Inr (params @ [(''agent-id'', PStr agent_id)]))"

definition build_azure_websocket_url ::
  "string \<Rightarrow> ((string \<times> pyval) list \<Rightarrow> string) \<Rightarrow> (string \<times> pyval) list \<Rightarrow>
   string \<Rightarrow> string \<Rightarrow> error + string" where
  "build_azure_websocket_url resource_name urlencode config request_id agent_id =
     (let base_url = ''wss://'' @ resource_name @ ''.cognitiveservices.azure.com'';
          path = ''/voice-agent/realtime''
      in case azure_websocket_params config request_id agent_id of
           Inl e \<Rightarrow> Inl e
         | Inr params \<Rightarrow> Inr (base_url @ path @ ''?'' @ urlencode params))"

text \<open>
  The routing condition in the specification's words, over the two facts it names:
  whether the agent is Ephemeral (its id is prefixed \<open>local-agent\<close>) and whether a model
  name is present in the configuration. The model parameter would be set for an Ephemeral
  agent with a model name, the agent-id parameter for a Persistent agent.
\<close>

definition isEphemeral :: "string \<Rightarrow> bool" where
  "isEphemeral agent_id = prefix ''local-agent'' agent_id"

definition modelNamePresent :: "(string \<times> pyval) list \<Rightarrow> bool" where
  "modelNamePresent config = (map_of config ''model_deployment_name'' \<noteq> None)"

definition neither_or_both_set :: "bool \<Rightarrow> bool \<Rightarrow> bool" where
  "neither_or_both_set ephemeral model_present =
     (let model_set = (ephemeral \<and> model_present); agent_id_set = (\<not> ephemeral)
      in (\<not> model_set \<and> \<not> agent_id_set) \<or> (model_set \<and> agent_id_set))"

definition param_keys :: "(string \<times> pyval) list \<Rightarrow> string set" where
  "param_keys params = fst ` set params"

section \<open>Backend (Python): the session configuration\<close>

text \<open>
  \<^verbatim>\<open>
  session_config = {
      "type": "session.update",
      "session": {
          "modalities": ["text", "audio"],
          "turn_detection": {"type": "azure_semantic_vad"},
          "input_audio_noise_reduction": {"type": "azure_deep_noise_suppression"},
          "input_audio_echo_cancellation": {"type": "server_echo_cancellation"},
          "avatar": {"character": "lisa", "style": "casual-sitting"},
          "voice": {"name": "en-US-Ava:DragonHDLatestNeural"},
          "instructions": scenario_instructions,
          "temperature": 0.8,
          "max_response_output_tokens": "inf"
      }
  }
  \<close>
  The only variable of the literal is \<open>scenario_instructions\<close>.
\<close>

definition session_config :: "pyval \<Rightarrow> pyval" where
  "session_config scenario_instructions =
     PDict [
       (''type'', PStr ''session.update''),
       (''session'', PDict [
          (''modalities'', PList [PStr ''text'', PStr ''audio'']),
          (''turn_detection'', PDict [(''type'', PStr ''azure_semantic_vad'')]),
          (''input_audio_noise_reduction'',
             PDict [(''type'', PStr ''azure_deep_noise_suppression'')]),
          (''input_audio_echo_cancellation'',
             PDict [(''type'', PStr ''server_echo_cancellation'')]),
          (''avatar'', PDict [(''character'', PStr ''lisa''), (''style'', PStr ''casual-sitting'')]),
          (''voice'', PDict [(''name'', PStr ''en-US-Ava:DragonHDLatestNeural'')]),
          (''instructions'', scenario_instructions),
          (''temperature'', PFloat 0.8),
          (''max_response_output_tokens'', PStr ''inf'')])]"

text \<open>Reading a nested entry: \<open>d[k1][k2]...\<close>, raising as the first failing subscript does.\<close>

fun subscript_path :: "pyval \<Rightarrow> string list \<Rightarrow> error + pyval" where
  "subscript_path d [] = Inr d"
| "subscript_path d (k # ks) =
     (case subscript d k of Inl e \<Rightarrow> Inl e | Inr v \<Rightarrow> subscript_path v ks)"

section \<open>Backend (Python): the agent manager\<close>

text \<open>Sequencing of statements that may raise: the first exception ends the function.\<close>

definition and_then :: "error + 'a \<Rightarrow> ('a \<Rightarrow> error + 'b) \<Rightarrow> error + 'b" where
  "and_then r f = (case r of Inl e \<Rightarrow> Inl e | Inr v \<Rightarrow> f v)"

text \<open>\<open>x[0]\<close>: the first element of a list or string; a dictionary has string keys only.\<close>

fun index0 :: "pyval \<Rightarrow> error + pyval" where
  "index0 (PList []) = Inl IndexError"
| "index0 (PList (x # xs)) = Inr x"
| "index0 (PStr []) = Inl IndexError"
| "index0 (PStr (c # cs)) = Inr (PStr [c])"
| "index0 (PDict kvs) = Inl (KeyError ''0'')"
| "index0 _ = Inl TypeError"

text \<open>\<open>x + s\<close> for a string \<open>s\<close>: concatenation when \<open>x\<close> is a string, \<open>TypeError\<close> otherwise.\<close>

fun add_str :: "pyval \<Rightarrow> string \<Rightarrow> error + string" where
  "add_str (PStr x) s = Inr (x @ s)"
| "add_str _ s = Inl TypeError"

text \<open>\<open>d.get(key, default)\<close>: only a dictionary has the method.\<close>

fun dict_get :: "pyval \<Rightarrow> string \<Rightarrow> pyval \<Rightarrow> error + pyval" where
  "dict_get (PDict kvs) k d = Inr (case map_of kvs k of None \<Rightarrow> d | Some v \<Rightarrow> v)"
| "dict_get _ k d = Inl AttributeError"

text \<open>
  \<^verbatim>\<open>
  BASE_INSTRUCTIONS = """
  CRITICAL INTERACTION GUIDELINES:
  - You are playing the role of a CUSTOMER
  ...
  - Avoid robotic language - speak like a real customer
  """
  \<close>
  The literal sits in the class body, so each of its lines, the closing one included,
  carries the four blanks of that indentation.
\<close>

definition BASE_INSTRUCTIONS :: string where
  "BASE_INSTRUCTIONS =
     ''\<newline>'' @
     ''    CRITICAL INTERACTION GUIDELINES:\<newline>'' @
     ''    - You are playing the role of a CUSTOMER\<newline>'' @
     ''    - The user is the health insurance SELLER practicing skills\<newline>'' @
     ''    - Keep responses SHORT (max 3 sentences, phone style)\<newline>'' @
     ''    - ALWAYS stay in character - never break role\<newline>'' @
     ''    - Simulate natural speech: pauses, \"um\", hesitation\<newline>'' @
     ''    - Show genuine human emotions appropriate to situation\<newline>'' @
     ''    - Ask follow-up questions naturally\<newline>'' @
     ''    - Avoid robotic language - speak like a real customer\<newline>'' @
     ''    ''"

text \<open>
  \<^verbatim>\<open>
  def create_agent(self, scenario_id: str, scenario_data: Dict) -> str:
      scenario_instructions = scenario_data["messages"][0]["content"]
      combined_instructions = scenario_instructions + self.BASE_INSTRUCTIONS
      model_name = scenario_data.get("model", "gpt-4o")
      temperature = scenario_data.get("modelParameters", {}).get("temperature", 0.7)
      if self.use_azure_ai_agents and self.project_client:
          return self._create_azure_agent(
              scenario_id, combined_instructions, model_name, temperature)
      else:
          return self._create_local_agent(
              scenario_id, combined_instructions, model_name, temperature)

  def _create_local_agent(self, scenario_id: str, instructions: str, model: str,
                          temperature: float, max_tokens: int) -> str: ...
  def _create_azure_agent(self, scenario_id: str, instructions: str, model: str,
                          temperature: float, max_tokens: int) -> str: ...
  \<close>
  \<open>scenario_persona\<close> is the expression \<open>scenario_data["messages"][0]["content"]\<close> and
  \<open>combined_instructions\<close> the value the second statement binds to the variable of that
  name. \<open>self.project_client\<close> is tested for truthiness only, so it is the boolean
  \<open>project_client\<close>.

  Both creators are defined with five parameters after \<open>self\<close>, none with a default, and
  each call passes four: binding the arguments raises \<open>TypeError\<close> (\<open>max_tokens\<close> is
  missing) before the creator's body runs. So, once the four arguments are evaluated,
  either branch raises, no agent id is returned and nothing is registered.
\<close>

definition scenario_persona :: "pyval \<Rightarrow> error + pyval" where
  "scenario_persona scenario_data =
     and_then (subscript scenario_data ''messages'') (\<lambda>messages.
     and_then (index0 messages) (\<lambda>first.
     subscript first ''content''))"

definition combined_instructions :: "pyval \<Rightarrow> error + string" where
  "combined_instructions scenario_data =
     and_then (scenario_persona scenario_data) (\<lambda>scenario_instructions.
     add_str scenario_instructions BASE_INSTRUCTIONS)"

definition create_agent :: "bool \<Rightarrow> bool \<Rightarrow> string \<Rightarrow> pyval \<Rightarrow> error + string" where
  "create_agent use_azure_ai_agents project_client scenario_id scenario_data =
     and_then (combined_instructions scenario_data) (\<lambda>combined.
     and_then (dict_get scenario_data ''model'' (PStr ''gpt-4o'')) (\<lambda>model_name.
     and_then (dict_get scenario_data ''modelParameters'' (PDict [])) (\<lambda>model_parameters.
     and_then (dict_get model_parameters ''temperature'' (PFloat 0.7)) (\<lambda>temperature.
       if use_azure_ai_agents \<and> project_client
       then Inl TypeError
       else Inl TypeError))))"

section \<open>Backend (Python): connecting a session to the upstream\<close>

text \<open>
  \<^verbatim>\<open>
  async def _connect_to_azure(self, agent_id: str):
      agent_data = self.agent_manager.get_agent(agent_id)
      url = self._build_azure_websocket_url(agent_id)
      azure_ws = await websockets.connect(
          url, extra_headers={"api-key": config["azure_openai_api_key"]})
      if agent_data["type"] == "local":
          await self._send_session_update(
              azure_ws,
              instructions=agent_data["instructions"],
              temperature=agent_data["temperature"])
      else:
          await self._send_session_update(
              azure_ws,
              instructions=None,
              temperature=agent_data["temperature"])
      return azure_ws
  \<close>
  \<open>get_agent\<close> and \<open>_send_session_update\<close> are not part of the sources: \<open>agent_data\<close>, the
  value \<open>get_agent\<close> returned, is an argument, and the result records the call of
  \<open>_send_session_update\<close> by the two keyword arguments the function passes to it.
  \<open>websockets_connect\<close> is the library call, which returns the connection or raises.
\<close>

record session_update =
  instructions :: pyval
  temperature :: pyval

definition connect_to_azure ::
  "string \<Rightarrow> ((string \<times> pyval) list \<Rightarrow> string) \<Rightarrow> (string \<times> pyval) list \<Rightarrow>
   (string \<Rightarrow> (string \<times> pyval) list \<Rightarrow> error + 'ws) \<Rightarrow> string \<Rightarrow> string \<Rightarrow> pyval \<Rightarrow>
   error + 'ws \<times> session_update" where
  "connect_to_azure resource_name urlencode config websockets_connect request_id agent_id
     agent_data =
     and_then (build_azure_websocket_url resource_name urlencode config request_id agent_id)
       (\<lambda>url.
     and_then (subscript (PDict config) ''azure_openai_api_key'') (\<lambda>api_key.
     and_then (websockets_connect url [(''api-key'', api_key)]) (\<lambda>azure_ws.
     and_then (subscript agent_data ''type'') (\<lambda>ty.
       if ty = PStr ''local''
       then and_then (subscript agent_data ''instructions'') (\<lambda>ins.
            and_then (subscript agent_data ''temperature'') (\<lambda>temp.
              Inr (azure_ws, \<lparr>instructions = ins, temperature = temp\<rparr>)))
       else and_then (subscript agent_data ''temperature'') (\<lambda>temp.
              Inr (azure_ws, \<lparr>instructions = PNone, temperature = temp\<rparr>))))))"

section \<open>Frontend (TypeScript): values and the negotiation handler\<close>

text \<open>
  Messages reach the frontend as parsed JSON. \<open>JUndefined\<close> is what reading a missing
  property gives. Objects are association lists looked up with \<open>map_of\<close>.
\<close>

datatype jsval =
    JUndefined
  | JNull
  | JBool bool
  | JNum real
  | JStr string
  | JArr "jsval list"
  | JObj "(string \<times> jsval) list"

datatype js_error = JSTypeError

text \<open>Truthiness, as \<open>||\<close>, \<open>&&\<close> and \<open>if\<close> test it.\<close>

fun truthy :: "jsval \<Rightarrow> bool" where
  "truthy JUndefined = False"
| "truthy JNull = False"
| "truthy (JBool b) = b"
| "truthy (JNum n) = (n \<noteq> 0)"
| "truthy (JStr s) = (s \<noteq> [])"
| "truthy (JArr xs) = True"
| "truthy (JObj kvs) = True"

definition js_or :: "jsval \<Rightarrow> jsval \<Rightarrow> jsval" where
  "js_or a b = (if truthy a then a else b)"

text \<open>
  \<open>x.k\<close> for a value \<open>x\<close> that is neither \<open>null\<close> nor \<open>undefined\<close>, and a key \<open>k\<close> among
  those the handler reads (none of which is a built-in property of a string, number,
  boolean or array): the entry of an object, \<open>undefined\<close> otherwise. \<open>x?.k\<close> is the same,
  and \<open>undefined\<close> when \<open>x\<close> is \<open>null\<close> or \<open>undefined\<close>.
\<close>

fun get_prop :: "jsval \<Rightarrow> string \<Rightarrow> jsval" where
  "get_prop (JObj kvs) k = (case map_of kvs k of None \<Rightarrow> JUndefined | Some v \<Rightarrow> v)"
| "get_prop _ k = JUndefined"

definition opt_prop :: "jsval \<Rightarrow> string \<Rightarrow> jsval" where
  "opt_prop x k = (if x = JUndefined \<or> x = JNull then JUndefined else get_prop x k)"

text \<open>
  \<^verbatim>\<open>
  const handleWebRTCMessage = useCallback((msg: any) => {
    if (msg.type === 'session.updated') {
      const session = msg.session
      const servers =
        session?.avatar?.ice_servers || session?.rtc?.ice_servers || session?.ice_servers
      const username =
        session?.avatar?.username || session?.avatar?.ice_username ||
        session?.rtc?.ice_username || session?.ice_username
      const credential =
        session?.avatar?.credential || session?.avatar?.ice_credential ||
        session?.rtc?.ice_credential || session?.ice_credential
      if (servers) {
        setupWebRTC(servers, username, credential)
      }
    } else if ((msg.server_sdp || msg.sdp || msg.answer) && msg.type !== 'session.update') {
      handleAnswer(msg)
    }
  }, [])
  \<close>
  The result is the call made to the media-negotiation collaborator, if any. Reading
  \<open>msg.type\<close> of \<open>null\<close> or \<open>undefined\<close> throws.
\<close>

datatype webrtc_action =
    SetupWebRTC jsval jsval jsval
  | HandleAnswer jsval
  | NoAction

definition handleWebRTCMessage :: "jsval \<Rightarrow> js_error + webrtc_action" where
  "handleWebRTCMessage msg =
     (if msg = JUndefined \<or> msg = JNull then Inl JSTypeError
      else if get_prop msg ''type'' = JStr ''session.updated'' then
        (let session = get_prop msg ''session'';
             servers =
               js_or (js_or (opt_prop (opt_prop session ''avatar'') ''ice_servers'')
                            (opt_prop (opt_prop session ''rtc'') ''ice_servers''))
                     (opt_prop session ''ice_servers'');
             username =
               js_or (js_or (js_or (opt_prop (opt_prop session ''avatar'') ''username'')
                                   (opt_prop (opt_prop session ''avatar'') ''ice_username''))
                            (opt_prop (opt_prop session ''rtc'') ''ice_username''))
                     (opt_prop session ''ice_username'');
             credential =
               js_or (js_or (js_or (opt_prop (opt_prop session ''avatar'') ''credential'')
                                   (opt_prop (opt_prop session ''avatar'') ''ice_credential''))
                            (opt_prop (opt_prop session ''rtc'') ''ice_credential''))
                     (opt_prop session ''ice_credential'')
         in if truthy servers then Inr (SetupWebRTC servers username credential)
            else Inr NoAction)
      else if truthy (js_or (js_or (get_prop msg ''server_sdp'') (get_prop msg ''sdp''))
                            (get_prop msg ''answer'')) \<and>
              get_prop msg ''type'' \<noteq> JStr ''session.update''
      then Inr (HandleAnswer msg)
      else Inr NoAction)"

text \<open>
  The ordered fallback chain in the specification's words: the first truthy value of a
  list of candidates, and the last candidate when none is truthy.
\<close>

fun first_truthy :: "jsval list \<Rightarrow> jsval" where
  "first_truthy [] = JUndefined"
| "first_truthy [x] = x"
| "first_truthy (x # y # ys) = (if truthy x then x else first_truthy (y # ys))"

section \<open>Frontend (TypeScript): the outbound channel and the analysis trigger\<close>

text \<open>
  The handlers of the \<open>App\<close> component act through calls: to \<open>send\<close> (the outbound channel
  of the realtime connection), to the state setters and to the analysis service. A handler
  is modelled by the list of calls it makes, in order.
\<close>

record turn =
  role :: string
  content :: string

record 'au recordings =
  conversation :: "turn list"
  audio :: "'au list"

datatype ('au, 'as) app_effect =
    Send jsval
  | SetShowLoading bool
  | AnalyzeConversation string string "'au list" "turn list"
  | SetAssessment 'as
  | SetShowAssessment bool
  | ConsoleError

text \<open>
  \<^verbatim>\<open>
  const sendOffer = useCallback(
    (sdp: string) => { send({ type: 'session.avatar.connect', client_sdp: sdp }) }, [send])
  const sendAudioChunk = useCallback(
    (base64: string) => { send({ type: 'input_audio_buffer.append', audio: base64 }) }, [send])
  \<close>
\<close>

definition sendOffer :: "string \<Rightarrow> ('au, 'as) app_effect list" where
  "sendOffer sdp =
     [Send (JObj [(''type'', JStr ''session.avatar.connect''), (''client_sdp'', JStr sdp)])]"

definition sendAudioChunk :: "string \<Rightarrow> ('au, 'as) app_effect list" where
  "sendAudioChunk base64 =
     [Send (JObj [(''type'', JStr ''input_audio_buffer.append''), (''audio'', JStr base64)])]"

text \<open>
  \<open>useWebRTC(sendOffer)\<close> and \<open>useRecorder(sendAudioChunk)\<close> receive the two callbacks; what
  they produce over time is a sequence of offers and audio chunks, each passed to its
  callback.
\<close>

datatype client_output = Offer string | AudioChunk string

fun outbound :: "client_output list \<Rightarrow> ('au, 'as) app_effect list" where
  "outbound [] = []"
| "outbound (Offer sdp # rest) = sendOffer sdp @ outbound rest"
| "outbound (AudioChunk base64 # rest) = sendAudioChunk base64 @ outbound rest"

text \<open>\<open>Array.prototype.join\<close> on an array of strings.\<close>

fun js_join :: "string \<Rightarrow> string list \<Rightarrow> string" where
  "js_join sep [] = []"
| "js_join sep [x] = x"
| "js_join sep (x # y # ys) = x @ sep @ js_join sep (y # ys)"

text \<open>
  \<^verbatim>\<open>
  const handleAnalyze = async () => {
    if (!selectedScenario) return
    const recordings = getRecordings()
    const audioData = getAudioRecording()
    if (!recordings.conversation.length) return
    setShowLoading(true)
    try {
      const transcript = recordings.conversation
        .map((m: any) => `${m.role}: ${m.content}`)
        .join('\n')
      const result = await api.analyzeConversation(
        selectedScenario, transcript, [...audioData, ...recordings.audio],
        recordings.conversation)
      setAssessment(result)
      setShowAssessment(true)
    } catch (error) {
      console.error('Analysis failed:', error)
    } finally {
      setShowLoading(false)
    }
  }
  \<close>
  \<open>selectedScenario\<close> is a scenario id or \<open>null\<close>; \<open>null\<close> and the empty string are falsy.
  What \<open>getRecordings()\<close> and \<open>getAudioRecording()\<close> return are arguments, and so is the
  analysis service, which answers with an assessment or rejects (\<open>None\<close>).
\<close>

definition handleAnalyze ::
  "string option \<Rightarrow> 'au recordings \<Rightarrow> 'au list \<Rightarrow>
   (string \<Rightarrow> string \<Rightarrow> 'au list \<Rightarrow> turn list \<Rightarrow> 'as option) \<Rightarrow> ('au, 'as) app_effect list" where
  "handleAnalyze selectedScenario getRecordings getAudioRecording analyzeConversation =
     (case selectedScenario of
        None \<Rightarrow> []
      | Some scenario \<Rightarrow>
          if scenario = [] then []
          else
            (let recordings = getRecordings; audioData = getAudioRecording
             in if length (conversation recordings) = 0 then []
                else
                  [SetShowLoading True] @
                  (let transcript =
                         js_join [CHR ''\<newline>'']
                           (map (\<lambda>m. role m @ '': '' @ content m) (conversation recordings))
                   in AnalyzeConversation scenario transcript (audioData @ audio recordings)
                        (conversation recordings) #
                      (case analyzeConversation scenario transcript
                              (audioData @ audio recordings) (conversation recordings) of
                         Some result \<Rightarrow> [SetAssessment result, SetShowAssessment True]
                       | None \<Rightarrow> [ConsoleError])) @
                  [SetShowLoading False]))"

text \<open>
  The part of the component state the handler's setters write, and the effect of a list of
  calls on it.
\<close>

record 'as dialogs =
  showLoading :: bool
  showAssessment :: bool
  assessment :: "'as option"

fun apply_effect :: "('au, 'as) app_effect \<Rightarrow> 'as dialogs \<Rightarrow> 'as dialogs" where
  "apply_effect (SetShowLoading b) st = st\<lparr>showLoading := b\<rparr>"
| "apply_effect (SetAssessment r) st = st\<lparr>assessment := Some r\<rparr>"
| "apply_effect (SetShowAssessment b) st = st\<lparr>showAssessment := b\<rparr>"
| "apply_effect _ st = st"

definition apply_effects :: "('au, 'as) app_effect list \<Rightarrow> 'as dialogs \<Rightarrow> 'as dialogs" where
  "apply_effects effects st = fold apply_effect effects st"

text \<open>
  \<open>App\<close> renders \<^verbatim>\<open><ChatPanel canAnalyze={messages.length > 0} onAnalyze={handleAnalyze} />\<close>,
  and \<open>ChatPanel\<close> renders the Analyze button with \<^verbatim>\<open>disabled={!canAnalyze}\<close>.
\<close>

definition canAnalyze :: "'m list \<Rightarrow> bool" where
  "canAnalyze messages = (length messages > 0)"

definition analyze_button_disabled :: "bool \<Rightarrow> bool" where
  "analyze_button_disabled can_analyze = (\<not> can_analyze)"

text \<open>The lines of a text: its pieces between newline characters.\<close>

fun split_on :: "char \<Rightarrow> string \<Rightarrow> string list" where
  "split_on c [] = [[]]"
| "split_on c (x # xs) =
     (if x = c then [] # split_on c xs
      else (case split_on c xs of [] \<Rightarrow> [[x]] | l # ls \<Rightarrow> (x # l) # ls))"

definition lines_of :: "string \<Rightarrow> string list" where
  "lines_of text = split_on CHR ''\<newline>'' text"

section \<open>Order preservation of the forwarding duties\<close>

lemma forward_client_to_azure_subseq:
  "subseq (fst (forward_client_to_azure json_loads msgs)) msgs"
  by (induction msgs) (auto split: option.splits sum.splits prod.splits)

lemma forward_azure_to_client_subseq:
  "subseq (fst (forward_azure_to_client json_loads msgs)) msgs"
  by (induction msgs) (auto split: option.splits sum.splits prod.splits)

text \<open>
  C1. In each direction, whatever the parser and whatever the source connection delivers,
  the messages the duty sends to the destination form a subsequence of the messages it
  received, in the same relative order: nothing is reordered, merged or invented.
\<close>

theorem forwarding_preserves_order:
  "subseq (fst (forward_client_to_azure json_loads msgs)) msgs \<and>
   subseq (fst (forward_azure_to_client json_loads msgs)) msgs"
  by (simp add: forward_client_to_azure_subseq forward_azure_to_client_subseq)

section \<open>Unrecognised message types\<close>

lemma forward_client_to_azure_sent_type:
  "m \<in> set (fst (forward_client_to_azure json_loads msgs)) \<Longrightarrow>
   \<exists>data. json_loads m = Some data \<and>
          subscript data ''type'' = Inr (PStr ''input_audio_buffer.append'')"
  by (induction msgs) (auto split: option.splits sum.splits prod.splits if_splits)

lemma forward_azure_to_client_sent_type:
  "m \<in> set (fst (forward_azure_to_client json_loads msgs)) \<Longrightarrow>
   \<exists>data. json_loads m = Some data \<and>
          subscript data ''type'' = Inr (PStr ''response.audio.delta'')"
  by (induction msgs) (auto split: option.splits sum.splits prod.splits if_splits)

lemma Classify_sent_client:
  "m \<in> set (fst (forward_client_to_azure json_loads msgs)) \<Longrightarrow>
   Classify json_loads m = AudioInputChunk"
  by (auto dest!: forward_client_to_azure_sent_type simp: Classify_def kind_of_type_def)

lemma Classify_sent_azure:
  "m \<in> set (fst (forward_azure_to_client json_loads msgs)) \<Longrightarrow>
   Classify json_loads m = AudioOutputDelta"
  by (auto dest!: forward_azure_to_client_sent_type simp: Classify_def kind_of_type_def)

text \<open>
  C3, as stated, fails: an upstream message of the unlisted type \<open>rate_limits.updated\<close>
  classifies as unrecognised, and the upstream-to-client duty, given that one message,
  sends nothing and ends without an exception: the message is dropped silently.
\<close>

theorem unrecognized_forwarded_counterexample:
  \<open>Classify (map_of [(''{"type": "rate_limits.updated"}'',
                        PDict [(''type'', PStr ''rate_limits.updated'')])])
     ''{"type": "rate_limits.updated"}'' = Unrecognized \<and>
   forward_azure_to_client
     (map_of [(''{"type": "rate_limits.updated"}'',
               PDict [(''type'', PStr ''rate_limits.updated'')])])
     [''{"type": "rate_limits.updated"}''] = ([], None)\<close>
  by (simp add: Classify_def kind_of_type_def)

text \<open>
  C3, amended. Each duty forwards one message type only (\<open>input_audio_buffer.append\<close>
  towards the upstream, \<open>response.audio.delta\<close> towards the client), so a message that
  classifies as unrecognised is never among the messages a duty sends, in either
  direction: the relay is fail-closed on unknown types.
\<close>

theorem unrecognized_never_forwarded:
  assumes "Classify json_loads m = Unrecognized"
  shows "m \<notin> set (fst (forward_client_to_azure json_loads msgs)) \<and>
         m \<notin> set (fst (forward_azure_to_client json_loads msgs'))"
  using assms Classify_sent_client [of m json_loads msgs]
    Classify_sent_azure [of m json_loads msgs']
  by auto

theorem unrecognized_never_forwarded_witness:
  \<open>Classify (map_of [(''{"type": "rate_limits.updated"}'',
                        PDict [(''type'', PStr ''rate_limits.updated'')])])
     ''{"type": "rate_limits.updated"}'' = Unrecognized \<and>
   ''{"type": "rate_limits.updated"}'' \<notin>
     set (fst (forward_client_to_azure
       (map_of [(''{"type": "rate_limits.updated"}'',
                 PDict [(''type'', PStr ''rate_limits.updated'')])])
       [''{"type": "rate_limits.updated"}''])) \<and>
   ''{"type": "rate_limits.updated"}'' \<notin>
     set (fst (forward_azure_to_client
       (map_of [(''{"type": "rate_limits.updated"}'',
                 PDict [(''type'', PStr ''rate_limits.updated'')])])
       [''{"type": "rate_limits.updated"}'']))\<close>
proof -
  have h: \<open>Classify (map_of [(''{"type": "rate_limits.updated"}'',
                        PDict [(''type'', PStr ''rate_limits.updated'')])])
     ''{"type": "rate_limits.updated"}'' = Unrecognized\<close>
    by (simp add: Classify_def kind_of_type_def)
  from unrecognized_never_forwarded [OF h] h show ?thesis
    by blast
qed

section \<open>Routing of the upstream address\<close>

lemma azure_websocket_params_ephemeral:
  "prefix ''local-agent'' agent_id \<Longrightarrow>
   azure_websocket_params config request_id agent_id =
     (case map_of config ''model_deployment_name'' of
        None \<Rightarrow> Inl (KeyError ''model_deployment_name'')
      | Some model \<Rightarrow>
          Inr [(''api-version'', PStr ''2025-05-01-preview''),
               (''x-ms-client-request-id'', PStr request_id), (''model'', model)])"
  by (simp add: azure_websocket_params_def split: option.splits)

lemma azure_websocket_params_persistent:
  "\<not> prefix ''local-agent'' agent_id \<Longrightarrow>
   azure_websocket_params config request_id agent_id =
     Inr [(''api-version'', PStr ''2025-05-01-preview''),
          (''x-ms-client-request-id'', PStr request_id), (''agent-id'', PStr agent_id)]"
  by (simp add: azure_websocket_params_def)

text \<open>
  C2, as stated, fails: for the Ephemeral agent \<open>local-agent-1a2b3c4d\<close> and a
  configuration without a deployment name, neither parameter would be set, yet the
  builder does not fail with \<open>InvalidRouting\<close>: the configuration lookup raises
  \<open>KeyError\<close>.
\<close>

theorem invalid_routing_counterexample:
  "neither_or_both_set (isEphemeral ''local-agent-1a2b3c4d'') (modelNamePresent []) \<and>
   build_azure_websocket_url ''contoso'' (concat \<circ> map fst) [] ''req-1'' ''local-agent-1a2b3c4d''
     = Inl (KeyError ''model_deployment_name'') \<and>
   build_azure_websocket_url ''contoso'' (concat \<circ> map fst) [] ''req-1'' ''local-agent-1a2b3c4d''
     \<noteq> Inl InvalidRouting"
  by (simp add: neither_or_both_set_def isEphemeral_def modelNamePresent_def
      build_azure_websocket_url_def azure_websocket_params_def)

lemma build_azure_websocket_url_cases:
  "build_azure_websocket_url resource_name urlencode config request_id agent_id =
     (if prefix ''local-agent'' agent_id
      then (case map_of config ''model_deployment_name'' of
              None \<Rightarrow> Inl (KeyError ''model_deployment_name'')
            | Some model \<Rightarrow>
                Inr (''wss://'' @ resource_name @ ''.cognitiveservices.azure.com'' @
                     ''/voice-agent/realtime'' @ ''?'' @
                     urlencode [(''api-version'', PStr ''2025-05-01-preview''),
                                (''x-ms-client-request-id'', PStr request_id),
                                (''model'', model)]))
      else Inr (''wss://'' @ resource_name @ ''.cognitiveservices.azure.com'' @
                ''/voice-agent/realtime'' @ ''?'' @
                urlencode [(''api-version'', PStr ''2025-05-01-preview''),
                           (''x-ms-client-request-id'', PStr request_id),
                           (''agent-id'', PStr agent_id)]))"
  by (simp add: build_azure_websocket_url_def azure_websocket_params_ephemeral
      azure_websocket_params_persistent split: option.splits)

text \<open>
  C2, amended. The builder never fails with \<open>InvalidRouting\<close>: its only failure is the
  \<open>KeyError\<close> of the configuration lookup, raised exactly for an Ephemeral agent when the
  configuration has no deployment name. Whenever the parameter dictionary is built, the
  address is the fixed prefix followed by its encoding, and the dictionary holds exactly
  one of \<open>model\<close> and \<open>agent-id\<close>: \<open>model\<close>, bound to the configured deployment name, for
  an Ephemeral agent, and \<open>agent-id\<close>, bound to the agent id, for a Persistent one.
\<close>

theorem upstream_address_routing:
  "build_azure_websocket_url resource_name urlencode config request_id agent_id
     \<noteq> Inl InvalidRouting \<and>
   (\<forall>e. build_azure_websocket_url resource_name urlencode config request_id agent_id = Inl e
        \<longleftrightarrow> e = KeyError ''model_deployment_name'' \<and> isEphemeral agent_id \<and>
            \<not> modelNamePresent config) \<and>
   (\<forall>params. azure_websocket_params config request_id agent_id = Inr params \<longrightarrow>
      build_azure_websocket_url resource_name urlencode config request_id agent_id =
        Inr (''wss://'' @ resource_name @
             ''.cognitiveservices.azure.com/voice-agent/realtime?'' @ urlencode params) \<and>
      map_of params ''api-version'' = Some (PStr ''2025-05-01-preview'') \<and>
      map_of params ''x-ms-client-request-id'' = Some (PStr request_id) \<and>
      (''model'' \<in> param_keys params) \<noteq> (''agent-id'' \<in> param_keys params) \<and>
      (if isEphemeral agent_id
       then ''model'' \<in> param_keys params \<and>
            map_of params ''model'' = map_of config ''model_deployment_name''
       else ''agent-id'' \<in> param_keys params \<and>
            map_of params ''agent-id'' = Some (PStr agent_id)))"
proof (cases "prefix ''local-agent'' agent_id")
  case False
  then show ?thesis
    by (auto simp add: build_azure_websocket_url_cases azure_websocket_params_persistent
        isEphemeral_def param_keys_def)
next
  case True
  show ?thesis
  proof (cases "map_of config ''model_deployment_name''")
    case None
    with True show ?thesis
      by (auto simp add: build_azure_websocket_url_cases azure_websocket_params_ephemeral
          isEphemeral_def modelNamePresent_def)
  next
    case (Some model)
    with True show ?thesis
      by (auto simp add: build_azure_websocket_url_cases azure_websocket_params_ephemeral
          isEphemeral_def modelNamePresent_def param_keys_def)
  qed
qed

theorem upstream_address_routing_witness:
  "azure_websocket_params [(''model_deployment_name'', PStr ''gpt-4o'')] ''req-1''
     ''local-agent-1a2b3c4d''
     = Inr [(''api-version'', PStr ''2025-05-01-preview''),
            (''x-ms-client-request-id'', PStr ''req-1''), (''model'', PStr ''gpt-4o'')] \<and>
   build_azure_websocket_url ''contoso'' (concat \<circ> map fst)
     [(''model_deployment_name'', PStr ''gpt-4o'')] ''req-1'' ''local-agent-1a2b3c4d''
     = Inr (''wss://contoso.cognitiveservices.azure.com/voice-agent/realtime?'' @
            ''api-versionx-ms-client-request-idmodel'')"
proof -
  have h: "azure_websocket_params [(''model_deployment_name'', PStr ''gpt-4o'')] ''req-1''
     ''local-agent-1a2b3c4d''
     = Inr [(''api-version'', PStr ''2025-05-01-preview''),
            (''x-ms-client-request-id'', PStr ''req-1''), (''model'', PStr ''gpt-4o'')]"
    by (simp add: azure_websocket_params_ephemeral)
  from upstream_address_routing [of "''contoso''" "concat \<circ> map fst"
      "[(''model_deployment_name'', PStr ''gpt-4o'')]" "''req-1''" "''local-agent-1a2b3c4d''"] h
  have "build_azure_websocket_url ''contoso'' (concat \<circ> map fst)
     [(''model_deployment_name'', PStr ''gpt-4o'')] ''req-1'' ''local-agent-1a2b3c4d''
     = Inr (''wss://'' @ ''contoso'' @ ''.cognitiveservices.azure.com/voice-agent/realtime?'' @
            (concat \<circ> map fst) [(''api-version'', PStr ''2025-05-01-preview''),
            (''x-ms-client-request-id'', PStr ''req-1''), (''model'', PStr ''gpt-4o'')])"
    by blast
  with h show ?thesis by simp
qed

section \<open>The configuration message\<close>

lemma and_then_Inr_iff:
  "and_then r f = Inr y \<longleftrightarrow> (\<exists>v. r = Inr v \<and> f v = Inr y)"
  by (cases r) (simp_all add: and_then_def)

lemma connect_to_azure_session_update:
  assumes "connect_to_azure resource_name urlencode config websockets_connect request_id
             agent_id agent_data = Inr (azure_ws, su)"
  shows "Inr (temperature su) = subscript agent_data ''temperature'' \<and>
         (if subscript agent_data ''type'' = Inr (PStr ''local'')
          then Inr (instructions su) = subscript agent_data ''instructions''
          else instructions su = PNone)"
  using assms
  by (auto simp add: connect_to_azure_def and_then_Inr_iff split: if_splits)

text \<open>
  C4. The claim says that for a Persistent agent the configuration omits the
  instructions and carries audio, voice and avatar parameters only, and the source's
  comment on that branch says the same (\<open>Just configure audio/voice settings\<close>). The
  branch itself does otherwise: for the registry's sample Azure agent \<open>asst_xyz789\<close>
  (temperature 0.8) the call of \<open>_send_session_update\<close> is given no instructions but is
  given the temperature 0.8 of the agent record, and for the same record with temperature
  0.3 it is given 0.3. A field of the persona is passed on where the comment and the
  claim allow none.
\<close>

theorem persistent_branch_passes_temperature:
  "map_sum id snd
     (connect_to_azure ''contoso'' (concat \<circ> map fst)
        [(''model_deployment_name'', PStr ''gpt-4o''), (''azure_openai_api_key'', PStr ''key'')]
        (curry Inr) ''req-1'' ''asst_xyz789''
        (PDict [(''id'', PStr ''asst_xyz789''), (''scenario_id'', PStr ''scenario2''),
                (''azure_agent_id'', PStr ''asst_xyz789''), (''model'', PStr ''gpt-4o''),
                (''temperature'', PFloat 0.8), (''created_at'', PStr ''2025-12-09T10:35:00''),
                (''type'', PStr ''azure'')]))
     = Inr \<lparr>instructions = PNone, temperature = PFloat 0.8\<rparr> \<and>
   map_sum id snd
     (connect_to_azure ''contoso'' (concat \<circ> map fst)
        [(''model_deployment_name'', PStr ''gpt-4o''), (''azure_openai_api_key'', PStr ''key'')]
        (curry Inr) ''req-1'' ''asst_xyz789''
        (PDict [(''id'', PStr ''asst_xyz789''), (''scenario_id'', PStr ''scenario2''),
                (''azure_agent_id'', PStr ''asst_xyz789''), (''model'', PStr ''gpt-4o''),
                (''temperature'', PFloat 0.3), (''created_at'', PStr ''2025-12-09T10:35:00''),
                (''type'', PStr ''azure'')]))
     = Inr \<lparr>instructions = PNone, temperature = PFloat 0.3\<rparr>"
  by (simp add: connect_to_azure_def and_then_def build_azure_websocket_url_cases)

text \<open>
  C5. Whatever instructions the configuration is built with, the session it describes
  enables the text and audio modalities, semantic voice-activity detection, deep noise
  suppression and server-side echo cancellation.
\<close>

theorem session_config_fixed_settings:
  "subscript_path (session_config scenario_instructions) [''session'', ''modalities'']
     = Inr (PList [PStr ''text'', PStr ''audio'']) \<and>
   subscript_path (session_config scenario_instructions)
     [''session'', ''turn_detection'', ''type''] = Inr (PStr ''azure_semantic_vad'') \<and>
   subscript_path (session_config scenario_instructions)
     [''session'', ''input_audio_noise_reduction'', ''type'']
     = Inr (PStr ''azure_deep_noise_suppression'') \<and>
   subscript_path (session_config scenario_instructions)
     [''session'', ''input_audio_echo_cancellation'', ''type'']
     = Inr (PStr ''server_echo_cancellation'')"
  by (simp add: session_config_def)

section \<open>The instructions of a created agent\<close>

lemma add_str_Inr_iff:
  "add_str v s = Inr r \<longleftrightarrow> (\<exists>x. v = PStr x \<and> r = x @ s)"
  by (cases v) auto

lemma create_agent_raises:
  "create_agent use_azure_ai_agents project_client scenario_id scenario_data \<noteq> Inr agent_id"
  by (auto simp add: create_agent_def and_then_Inr_iff)

text \<open>
  C6, as stated, fails: for a scenario whose persona is \<open>You are a cautious customer.\<close>
  the combined instructions are the persona followed by the baseline preamble, which
  differs from the preamble followed by the persona. (The call that should hand them to
  the creator then raises \<open>TypeError\<close>, so no agent record receives them.)
\<close>

theorem preamble_first_counterexample:
  "combined_instructions
     (PDict [(''model'', PStr ''gpt-4o''),
             (''messages'', PList [PDict [(''role'', PStr ''system''),
                                         (''content'', PStr ''You are a cautious customer.'')]])])
     = Inr (''You are a cautious customer.'' @ BASE_INSTRUCTIONS) \<and>
   ''You are a cautious customer.'' @ BASE_INSTRUCTIONS
     \<noteq> BASE_INSTRUCTIONS @ ''You are a cautious customer.'' \<and>
   create_agent False False ''scenario1''
     (PDict [(''model'', PStr ''gpt-4o''),
             (''messages'', PList [PDict [(''role'', PStr ''system''),
                                         (''content'', PStr ''You are a cautious customer.'')]])])
     = Inl TypeError"
  by (simp add: create_agent_def combined_instructions_def scenario_persona_def and_then_def
      BASE_INSTRUCTIONS_def)

text \<open>
  C6, amended. For every scenario, the instructions \<open>create_agent\<close> combines for the agent
  are the scenario's persona instructions followed by the fixed baseline preamble: they
  are computed exactly when the persona is a string, and then they are the persona with
  the preamble appended, the preamble last.
\<close>

theorem instructions_are_persona_then_preamble:
  "combined_instructions scenario_data = Inr combined \<longleftrightarrow>
     (\<exists>persona. scenario_persona scenario_data = Inr (PStr persona) \<and>
                combined = persona @ BASE_INSTRUCTIONS)"
  by (auto simp add: combined_instructions_def and_then_Inr_iff add_str_Inr_iff)

section \<open>Precedence of the negotiation keys\<close>

lemma js_or_chain3: "js_or (js_or a b) c = first_truthy [a, b, c]"
  by (simp add: js_or_def)

lemma js_or_chain4: "js_or (js_or (js_or a b) c) d = first_truthy [a, b, c, d]"
  by (simp add: js_or_def)

lemma first_truthy_head: "truthy x \<Longrightarrow> first_truthy (x # xs) = x"
  by (cases xs) simp_all

lemma get_prop_type_not_nullish:
  "get_prop msg ''type'' = JStr ty \<Longrightarrow> msg \<noteq> JUndefined \<and> msg \<noteq> JNull"
  by (cases msg) simp_all

text \<open>
  C7, as stated, fails: in this \<open>session.updated\<close> message the username is carried under
  the avatar-namespaced key (as the empty string) and under the top-level key
  \<open>ice_username\<close>; the collaborator is handed the top-level value \<open>legacy-user\<close>, not the
  avatar-namespaced one.
\<close>

theorem avatar_value_handed_counterexample:
  "handleWebRTCMessage
     (JObj [(''type'', JStr ''session.updated''),
            (''session'', JObj [
               (''avatar'', JObj [(''ice_servers'', JArr [JStr ''turn:relay.example.com:3478'']),
                                 (''username'', JStr []),
                                 (''credential'', JStr ''avatar-secret'')]),
               (''ice_servers'', JArr [JStr ''turn:legacy.example.com:3478'']),
               (''ice_username'', JStr ''legacy-user''),
               (''ice_credential'', JStr ''legacy-secret'')])])
     = Inr (SetupWebRTC (JArr [JStr ''turn:relay.example.com:3478'']) (JStr ''legacy-user'')
              (JStr ''avatar-secret''))"
  by (simp add: handleWebRTCMessage_def opt_prop_def js_or_def)

text \<open>
  C7, amended. For a \<open>session.updated\<close> message, each connectivity field is resolved to
  the first truthy value along its fixed chain, avatar-namespaced keys first, then the
  \<open>rtc\<close> key, the top-level key last; when the resolved servers are truthy, the resolved
  triple is what the media-negotiation collaborator is handed. So an avatar-namespaced
  value that is truthy is the one handed over, whatever the later keys hold; one that is
  falsy (such as an empty string) falls through to the later keys.
\<close>

theorem negotiation_extraction_priority:
  assumes "get_prop msg ''type'' = JStr ''session.updated''"
  shows
    "(let session = get_prop msg ''session'';
          avatar = opt_prop session ''avatar'';
          rtc = opt_prop session ''rtc'';
          servers = first_truthy [opt_prop avatar ''ice_servers'', opt_prop rtc ''ice_servers'',
                                  opt_prop session ''ice_servers''];
          username = first_truthy [opt_prop avatar ''username'', opt_prop avatar ''ice_username'',
                                   opt_prop rtc ''ice_username'', opt_prop session ''ice_username''];
          credential = first_truthy [opt_prop avatar ''credential'',
                                     opt_prop avatar ''ice_credential'',
                                     opt_prop rtc ''ice_credential'',
                                     opt_prop session ''ice_credential'']
      in truthy servers \<longrightarrow>
           handleWebRTCMessage msg = Inr (SetupWebRTC servers username credential) \<and>
           (truthy (opt_prop avatar ''ice_servers'') \<longrightarrow> servers = opt_prop avatar ''ice_servers'') \<and>
           (truthy (opt_prop avatar ''username'') \<longrightarrow> username = opt_prop avatar ''username'') \<and>
           (truthy (opt_prop avatar ''credential'') \<longrightarrow>
              credential = opt_prop avatar ''credential''))"
proof -
  from assms have "msg \<noteq> JUndefined" "msg \<noteq> JNull"
    using get_prop_type_not_nullish by blast+
  with assms have "handleWebRTCMessage msg =
    (let session = get_prop msg ''session'';
          avatar = opt_prop session ''avatar'';
          rtc = opt_prop session ''rtc'';
          servers = first_truthy [opt_prop avatar ''ice_servers'', opt_prop rtc ''ice_servers'',
                                  opt_prop session ''ice_servers''];
          username = first_truthy [opt_prop avatar ''username'', opt_prop avatar ''ice_username'',
                                   opt_prop rtc ''ice_username'', opt_prop session ''ice_username''];
          credential = first_truthy [opt_prop avatar ''credential'',
                                     opt_prop avatar ''ice_credential'',
                                     opt_prop rtc ''ice_credential'',
                                     opt_prop session ''ice_credential'']
      in if truthy servers then Inr (SetupWebRTC servers username credential) else Inr NoAction)"
    unfolding handleWebRTCMessage_def js_or_chain4
    unfolding js_or_chain3
    by (simp add: Let_def del: first_truthy.simps)
  then show ?thesis
    unfolding Let_def by (simp add: first_truthy_head del: first_truthy.simps)
qed

theorem negotiation_extraction_priority_witness:
  "handleWebRTCMessage
     (JObj [(''type'', JStr ''session.updated''),
            (''session'', JObj [
               (''avatar'', JObj [(''ice_servers'', JArr [JStr ''turn:relay.example.com:3478'']),
                                 (''username'', JStr ''avatar-user''),
                                 (''credential'', JStr ''avatar-secret'')]),
               (''ice_servers'', JArr [JStr ''turn:legacy.example.com:3478'']),
               (''ice_username'', JStr ''legacy-user''),
               (''ice_credential'', JStr ''legacy-secret'')])])
     = Inr (SetupWebRTC (JArr [JStr ''turn:relay.example.com:3478'']) (JStr ''avatar-user'')
              (JStr ''avatar-secret''))"
proof -
  have t: "get_prop
     (JObj [(''type'', JStr ''session.updated''),
            (''session'', JObj [
               (''avatar'', JObj [(''ice_servers'', JArr [JStr ''turn:relay.example.com:3478'']),
                                 (''username'', JStr ''avatar-user''),
                                 (''credential'', JStr ''avatar-secret'')]),
               (''ice_servers'', JArr [JStr ''turn:legacy.example.com:3478'']),
               (''ice_username'', JStr ''legacy-user''),
               (''ice_credential'', JStr ''legacy-secret'')])]) ''type''
     = JStr ''session.updated''"
    by simp
  from negotiation_extraction_priority [OF t] show ?thesis
    by (simp add: opt_prop_def Let_def)
qed

section \<open>Offers on the outbound channel\<close>

lemma outbound_append: "outbound (xs @ ys) = outbound xs @ outbound ys"
  by (induction xs rule: outbound.induct) simp_all

lemma length_outbound: "length (outbound xs) = length xs"
  by (induction xs rule: outbound.induct) (simp_all add: sendOffer_def sendAudioChunk_def)

text \<open>
  C8. An offer is wrapped into a message of type \<open>session.avatar.connect\<close> whose
  \<open>client_sdp\<close> is the offer, and it goes out through \<open>send\<close>, the channel of the audio
  chunks: in any sequence of client outputs, each output makes one call of \<open>send\<close>, and the
  offer's message stands between the messages of the outputs before and after it.
\<close>

theorem offer_sent_on_ordered_channel:
  "sendOffer sdp =
     [Send (JObj [(''type'', JStr ''session.avatar.connect''), (''client_sdp'', JStr sdp)])] \<and>
   outbound (before @ Offer sdp # after) =
     outbound before @
     [Send (JObj [(''type'', JStr ''session.avatar.connect''), (''client_sdp'', JStr sdp)])] @
     outbound after \<and>
   length (outbound (before @ Offer sdp # after)) = length (before @ Offer sdp # after)"
  by (simp add: outbound_append length_outbound sendOffer_def)

section \<open>The transcript and the analysis trigger\<close>

lemma split_on_not_Nil: "split_on c xs \<noteq> []"
  by (induction xs) (auto split: list.splits)

lemma split_on_no_sep: "c \<notin> set a \<Longrightarrow> split_on c a = [a]"
  by (induction a) auto

lemma split_on_append_sep: "c \<notin> set a \<Longrightarrow> split_on c (a @ c # rest) = a # split_on c rest"
  by (induction a) (auto split: list.splits simp: split_on_not_Nil)

lemma split_on_js_join:
  "xs \<noteq> [] \<Longrightarrow> \<forall>x\<in>set xs. c \<notin> set x \<Longrightarrow> split_on c (js_join [c] xs) = xs"
proof (induction xs)
  case Nil
  then show ?case by simp
next
  case (Cons x xs)
  show ?case
  proof (cases xs)
    case Nil
    with Cons.prems show ?thesis by (simp add: split_on_no_sep)
  next
    case (Cons y ys)
    with Cons.IH Cons.prems have "split_on c (js_join [c] xs) = xs" by simp
    with Cons Cons.prems show ?thesis by (simp add: split_on_append_sep)
  qed
qed

lemma js_join_not_Nil: "xs \<noteq> [] \<Longrightarrow> hd xs \<noteq> [] \<Longrightarrow> js_join sep xs \<noteq> []"
  by (induction sep xs rule: js_join.induct) simp_all

lemma handleAnalyze_call:
  assumes "AnalyzeConversation scenario transcript segments turns
             \<in> set (handleAnalyze selectedScenario recs audioData api)"
  shows "conversation recs \<noteq> [] \<and> turns = conversation recs \<and>
         selectedScenario = Some scenario \<and> scenario \<noteq> [] \<and>
         segments = audioData @ audio recs \<and>
         transcript = js_join [CHR ''\<newline>''] (map (\<lambda>m. role m @ '': '' @ content m) turns)"
  using assms
  by (auto simp add: handleAnalyze_def Let_def split: option.splits if_splits)

text \<open>
  C9, as stated, fails: for a conversation of two turns whose first content contains a
  newline, the transcript handed to the analysis service (which rejects the request
  here) has three lines, so it is not one line per turn.
\<close>

theorem one_line_per_turn_counterexample:
  "handleAnalyze (Some ''scenario1'')
     \<lparr>conversation = [\<lparr>role = ''user'', content = ''Hello\<newline>there''\<rparr>,
                      \<lparr>role = ''assistant'', content = ''Hi''\<rparr>],
      audio = ([] :: nat list)\<rparr>
     []
     (curry (curry (curry (map_of []))) ::
        string \<Rightarrow> string \<Rightarrow> nat list \<Rightarrow> turn list \<Rightarrow> nat option)
     = [SetShowLoading True,
        AnalyzeConversation ''scenario1'' ''user: Hello\<newline>there\<newline>assistant: Hi'' []
          [\<lparr>role = ''user'', content = ''Hello\<newline>there''\<rparr>,
           \<lparr>role = ''assistant'', content = ''Hi''\<rparr>],
        ConsoleError,
        SetShowLoading False] \<and>
   lines_of ''user: Hello\<newline>there\<newline>assistant: Hi''
     = [''user: Hello'', ''there'', ''assistant: Hi'']"
  by (simp add: handleAnalyze_def lines_of_def)

text \<open>
  C9, amended. Whenever the analysis service is called, the turn list it is given is the
  recorded conversation, and the transcript is that list rendered in order, each turn as
  \<open>role: content\<close>, the renderings joined by newline characters, with no turn added,
  dropped or reordered. When no role or content contains a newline itself, the lines of
  the transcript are exactly the rendered turns, one line per turn; a content with a
  newline spreads its turn over several lines.
\<close>

theorem transcript_is_rendered_turn_list:
  assumes "AnalyzeConversation scenario transcript segments turns
             \<in> set (handleAnalyze selectedScenario recs audioData api)"
  shows "turns = conversation recs \<and>
         transcript = js_join [CHR ''\<newline>''] (map (\<lambda>m. role m @ '': '' @ content m) turns) \<and>
         ((\<forall>m\<in>set turns. CHR ''\<newline>'' \<notin> set (role m) \<and> CHR ''\<newline>'' \<notin> set (content m)) \<longrightarrow>
            lines_of transcript = map (\<lambda>m. role m @ '': '' @ content m) turns)"
proof -
  from handleAnalyze_call [OF assms]
  have ne: "turns \<noteq> []" and tu: "turns = conversation recs"
    and tr: "transcript = js_join [CHR ''\<newline>''] (map (\<lambda>m. role m @ '': '' @ content m) turns)"
    by auto
  have "lines_of transcript = map (\<lambda>m. role m @ '': '' @ content m) turns"
    if "\<forall>m\<in>set turns. CHR ''\<newline>'' \<notin> set (role m) \<and> CHR ''\<newline>'' \<notin> set (content m)"
  proof -
    from that have "\<forall>x\<in>set (map (\<lambda>m. role m @ '': '' @ content m) turns). CHR ''\<newline>'' \<notin> set x"
      by auto
    moreover from ne have "map (\<lambda>m. role m @ '': '' @ content m) turns \<noteq> []"
      by simp
    ultimately show ?thesis
      unfolding lines_of_def tr by (rule split_on_js_join [rotated])
  qed
  with tu tr show ?thesis by blast
qed

theorem transcript_is_rendered_turn_list_witness:
  "AnalyzeConversation ''scenario1''
     (''user: Hello'' @ [CHR ''\<newline>''] @ ''assistant: Hi, who is this?'') [1, 2, 3 :: nat]
     [\<lparr>role = ''user'', content = ''Hello''\<rparr>,
      \<lparr>role = ''assistant'', content = ''Hi, who is this?''\<rparr>]
     \<in> set (handleAnalyze (Some ''scenario1'')
              \<lparr>conversation = [\<lparr>role = ''user'', content = ''Hello''\<rparr>,
                               \<lparr>role = ''assistant'', content = ''Hi, who is this?''\<rparr>],
               audio = [3 :: nat]\<rparr>
              [1, 2] (\<lambda>sc tr au cv. Some (length cv))) \<and>
   lines_of (''user: Hello'' @ [CHR ''\<newline>''] @ ''assistant: Hi, who is this?'')
     = [''user: Hello'', ''assistant: Hi, who is this?'']"
proof -
  have h: "AnalyzeConversation ''scenario1''
     (''user: Hello'' @ [CHR ''\<newline>''] @ ''assistant: Hi, who is this?'') [1, 2, 3 :: nat]
     [\<lparr>role = ''user'', content = ''Hello''\<rparr>,
      \<lparr>role = ''assistant'', content = ''Hi, who is this?''\<rparr>]
     \<in> set (handleAnalyze (Some ''scenario1'')
              \<lparr>conversation = [\<lparr>role = ''user'', content = ''Hello''\<rparr>,
                               \<lparr>role = ''assistant'', content = ''Hi, who is this?''\<rparr>],
               audio = [3 :: nat]\<rparr>
              [1, 2] (\<lambda>sc tr au cv. Some (length cv)))"
    by (simp add: handleAnalyze_def)
  from transcript_is_rendered_turn_list [OF h] h show ?thesis
    by simp
qed

text \<open>
  C10. With an empty recorded conversation the handler makes no call at all, so the
  analysis service is not called and the dialogs stay as they are. The Analyze button is
  disabled exactly when the message list is empty. And whenever the analysis service is
  called, the turn list and the transcript it is given are not empty.
\<close>

theorem analyze_guarded_by_empty_conversation:
  "(conversation recs = [] \<longrightarrow>
      handleAnalyze selectedScenario recs audioData api = [] \<and>
      apply_effects (handleAnalyze selectedScenario recs audioData api) st = st) \<and>
   (analyze_button_disabled (canAnalyze messages) \<longleftrightarrow> messages = []) \<and>
   (AnalyzeConversation scenario transcript segments turns
      \<in> set (handleAnalyze selectedScenario' recs' audioData' api') \<longrightarrow>
    turns \<noteq> [] \<and> transcript \<noteq> [])"
proof -
  have a: "handleAnalyze selectedScenario recs audioData api = [] \<and>
      apply_effects (handleAnalyze selectedScenario recs audioData api) st = st"
    if "conversation recs = []"
    using that by (simp add: handleAnalyze_def apply_effects_def split: option.splits)
  have b: "analyze_button_disabled (canAnalyze messages) \<longleftrightarrow> messages = []"
    by (simp add: analyze_button_disabled_def canAnalyze_def)
  have c: "turns \<noteq> [] \<and> transcript \<noteq> []"
    if "AnalyzeConversation scenario transcript segments turns
          \<in> set (handleAnalyze selectedScenario' recs' audioData' api')"
  proof -
    from handleAnalyze_call [OF that]
    have ne: "turns \<noteq> []"
      and tr: "transcript = js_join [CHR ''\<newline>''] (map (\<lambda>m. role m @ '': '' @ content m) turns)"
      by auto
    from ne have "hd (map (\<lambda>m. role m @ '': '' @ content m) turns) \<noteq> []"
      by (cases turns) simp_all
    with ne tr show ?thesis
      by (simp add: js_join_not_Nil)
  qed
  from a b c show ?thesis by blast
qed

theorem analyze_guarded_by_empty_conversation_witness:
  "conversation \<lparr>conversation = [], audio = [3 :: nat]\<rparr> = [] \<and>
   handleAnalyze (Some ''scenario1'') \<lparr>conversation = [], audio = [3 :: nat]\<rparr> [1, 2]
     (\<lambda>sc tr au cv. Some (length cv)) = [] \<and>
   AnalyzeConversation ''scenario1'' ''user: Hello'' [1, 2, 3 :: nat]
     [\<lparr>role = ''user'', content = ''Hello''\<rparr>]
     \<in> set (handleAnalyze (Some ''scenario1'')
              \<lparr>conversation = [\<lparr>role = ''user'', content = ''Hello''\<rparr>], audio = [3 :: nat]\<rparr>
              [1, 2] (\<lambda>sc tr au cv. Some (length cv))) \<and>
   [\<lparr>role = ''user'', content = ''Hello''\<rparr>] \<noteq> [] \<and> ''user: Hello'' \<noteq> []"
proof -
  have e: "conversation \<lparr>conversation = [], audio = [3 :: nat]\<rparr> = []"
    by simp
  have h: "AnalyzeConversation ''scenario1'' ''user: Hello'' [1, 2, 3 :: nat]
     [\<lparr>role = ''user'', content = ''Hello''\<rparr>]
     \<in> set (handleAnalyze (Some ''scenario1'')
              \<lparr>conversation = [\<lparr>role = ''user'', content = ''Hello''\<rparr>], audio = [3 :: nat]\<rparr>
              [1, 2] (\<lambda>sc tr au cv. Some (length cv)))"
    by (simp add: handleAnalyze_def)
  from analyze_guarded_by_empty_conversation
    [of "\<lparr>conversation = [], audio = [3 :: nat]\<rparr>" "Some ''scenario1''" "[1, 2]"
        "\<lambda>sc tr au cv. Some (length cv)"
        "\<lparr>showLoading = False, showAssessment = False, assessment = None\<rparr>"
        "[] :: nat list"
        "''scenario1''" "''user: Hello''" "[1, 2, 3]" "[\<lparr>role = ''user'', content = ''Hello''\<rparr>]"
        "Some ''scenario1''"
        "\<lparr>conversation = [\<lparr>role = ''user'', content = ''Hello''\<rparr>], audio = [3 :: nat]\<rparr>"
        "[1, 2]" "\<lambda>sc tr au cv. Some (length cv)"]
    e h
  show ?thesis
    by blast
qed

end
